theory Spec2Isabelle
  imports Main "HOL-Library.Word"
begin

unbundle bit_operations_syntax

section \<open>The proxy/stub tables of \<^verbatim>\<open>natlink_p.c\<close>\<close>

text \<open>
  \<^verbatim>\<open>NatlinkSource/natlink_p.c\<close> is the MIDL-generated proxy/stub file of the COM
  interface \<^verbatim>\<open>IDgnAppSupport\<close>. It consists of constant tables and of one function,
  \<^verbatim>\<open>_natlink_IID_Lookup\<close>. The file is compiled for 32-bit x86 only (line 10 and the
  guard of line 19), so \<^verbatim>\<open>int\<close> and \<^verbatim>\<open>long\<close> are 32 bits wide, \<^verbatim>\<open>short\<close> is 16
  bits wide and multi-byte values are stored least significant byte first.

  C identifiers that start with an underscore lose it here, since an Isabelle name
  starts with a letter: \<^verbatim>\<open>_natlink_IID_Lookup\<close> is \<open>natlink_IID_Lookup\<close>, and so on.
\<close>

subsection \<open>Scalar types\<close>

type_synonym uchar = "8 word"
type_synonym ushort = "16 word"
type_synonym ulong = "32 word"
type_synonym cint = "32 word"  \<comment> \<open>C \<^verbatim>\<open>int\<close>; \<open>sint\<close> reads its value\<close>

subsection \<open>GUIDs and their bytes\<close>

text \<open>
  \<^verbatim>\<open>typedef struct { unsigned long Data1; unsigned short Data2; unsigned short Data3;
                   unsigned char Data4[8]; } GUID;\<close>
  The array of eight bytes is a constructor with eight fields, so that no value of the
  type has another length.
\<close>

datatype uchar8 = UChar8 uchar uchar uchar uchar uchar uchar uchar uchar

record GUID =
  Data1 :: ulong
  Data2 :: ushort
  Data3 :: ushort
  Data4 :: uchar8

text \<open>The sixteen bytes of a GUID in memory, fields in declaration order (there is no padding).\<close>

definition bytes_of_ulong :: "ulong \<Rightarrow> uchar list" where
  "bytes_of_ulong w =
     [ucast w, ucast (drop_bit 8 w), ucast (drop_bit 16 w), ucast (drop_bit 24 w)]"

definition bytes_of_ushort :: "ushort \<Rightarrow> uchar list" where
  "bytes_of_ushort w = [ucast w, ucast (drop_bit 8 w)]"

fun bytes_of_uchar8 :: "uchar8 \<Rightarrow> uchar list" where
  "bytes_of_uchar8 (UChar8 b0 b1 b2 b3 b4 b5 b6 b7) = [b0, b1, b2, b3, b4, b5, b6, b7]"

definition bytes_of_GUID :: "GUID \<Rightarrow> uchar list" where
  "bytes_of_GUID g =
     bytes_of_ulong (Data1 g) @ bytes_of_ushort (Data2 g) @ bytes_of_ushort (Data3 g)
       @ bytes_of_uchar8 (Data4 g)"

text \<open>
  The C library's \<^verbatim>\<open>memcmp(a, b, n)\<close>: the first \<open>n\<close> bytes of both objects are compared
  as unsigned characters; the result is zero when they agree and has the sign of the first
  difference otherwise. Reading past the end of an object has no defined result:
  \<open>None\<close>.
\<close>

fun memcmp :: "uchar list \<Rightarrow> uchar list \<Rightarrow> nat \<Rightarrow> int option" where
  "memcmp xs ys 0 = Some 0"
| "memcmp (x # xs) (y # ys) (Suc n) =
     (if x = y then memcmp xs ys n else Some (int (unat x) - int (unat y)))"
| "memcmp xs ys (Suc n) = None"

text \<open>
  The canonical text form of a GUID, as the specification writes identities:
  \<^verbatim>\<open>xxxxxxxx-xxxx-xxxx-xxxx-xxxxxxxxxxxx\<close> in lower-case hexadecimal, \<^verbatim>\<open>Data1\<close>,
  \<^verbatim>\<open>Data2\<close> and \<^verbatim>\<open>Data3\<close> most significant digit first, then the bytes of
  \<^verbatim>\<open>Data4\<close> in order, a hyphen after the second. This follows the specification's
  notation, not a function of the source.
\<close>

definition hex_digit :: "nat \<Rightarrow> char" where
  "hex_digit n = ''0123456789abcdef'' ! (n mod 16)"

definition hex_of_uchar :: "uchar \<Rightarrow> string" where
  "hex_of_uchar b = [hex_digit (unat b div 16), hex_digit (unat b mod 16)]"

definition hex_of_bytes :: "uchar list \<Rightarrow> string" where
  "hex_of_bytes bs = concat (map hex_of_uchar bs)"

definition text_of_GUID :: "GUID \<Rightarrow> string" where
  "text_of_GUID g =
     hex_of_bytes (rev (bytes_of_ulong (Data1 g))) @ ''-''
       @ hex_of_bytes (rev (bytes_of_ushort (Data2 g))) @ ''-''
       @ hex_of_bytes (rev (bytes_of_ushort (Data3 g))) @ ''-''
       @ hex_of_bytes (take 2 (bytes_of_uchar8 (Data4 g))) @ ''-''
       @ hex_of_bytes (drop 2 (bytes_of_uchar8 (Data4 g)))"

subsection \<open>Transfer syntax (lines 76--77)\<close>

text \<open>
  \<^verbatim>\<open>typedef struct { unsigned short MajorVersion; unsigned short MinorVersion; } RPC_VERSION;
  typedef struct { GUID SyntaxGUID; RPC_VERSION SyntaxVersion; } RPC_SYNTAX_IDENTIFIER;\<close>
\<close>

record RPC_VERSION =
  MajorVersion :: ushort
  MinorVersion :: ushort

record RPC_SYNTAX_IDENTIFIER =
  SyntaxGUID :: GUID
  SyntaxVersion :: RPC_VERSION

definition RpcTransferSyntax :: RPC_SYNTAX_IDENTIFIER where
  "RpcTransferSyntax =
     \<lparr>SyntaxGUID = \<lparr>Data1 = 0x8A885D04, Data2 = 0x1CEB, Data3 = 0x11C9,
                    Data4 = UChar8 0x9F 0xE8 0x08 0x00 0x2B 0x10 0x48 0x60\<rparr>,
      SyntaxVersion = \<lparr>MajorVersion = 2, MinorVersion = 0\<rparr>\<rparr>"

subsection \<open>Interface identities\<close>

text \<open>
  Modelled from the spec: \<^verbatim>\<open>IID_IDgnAppSupport\<close> and \<^verbatim>\<open>IID_IDispatch\<close> are defined
  outside \<^verbatim>\<open>natlink_p.c\<close> (in the file behind \<^verbatim>\<open>natlink_i.h\<close> and in the platform
  headers). Their values are the ones the specification's section 6 gives, which are also
  the ones the comments of lines 128--133 of the source record. \<^verbatim>\<open>IID_IUnknown\<close>, which
  the file does not use, has the value of the comment of lines 124--125.
\<close>

definition IID_IDgnAppSupport :: GUID where
  "IID_IDgnAppSupport =
     \<lparr>Data1 = 0xcadd17a0, Data2 = 0x482a, Data3 = 0x484c,
      Data4 = UChar8 0x94 0x51 0x7a 0xcb 0xa6 0xf1 0x27 0x2f\<rparr>"

definition IID_IDispatch :: GUID where
  "IID_IDispatch =
     \<lparr>Data1 = 0x00020400, Data2 = 0x0000, Data3 = 0x0000,
      Data4 = UChar8 0xC0 0x00 0x00 0x00 0x00 0x00 0x00 0x46\<rparr>"

definition IID_IUnknown :: GUID where
  "IID_IUnknown =
     \<lparr>Data1 = 0x00000000, Data2 = 0x0000, Data3 = 0x0000,
      Data4 = UChar8 0xC0 0x00 0x00 0x00 0x00 0x00 0x00 0x46\<rparr>"

subsection \<open>Arrays, null pointers and pointers into arrays\<close>

text \<open>
  A pointer that may be null is an \<open>option\<close>: \<open>None\<close> is the initialiser \<^verbatim>\<open>0\<close>.

  An array of declared size \<open>n\<close> with a brace initialiser holds the initialisers in order
  and zero in the elements that have none.

  \<^verbatim>\<open>&a[i]\<close> is the array together with the index; \<^verbatim>\<open>p[k]\<close> on such a pointer is the
  element \<open>i + k\<close> of the array when there is one, and no object otherwise (\<open>None\<close>).
\<close>

definition c_array :: "nat \<Rightarrow> 'a \<Rightarrow> 'a list \<Rightarrow> 'a list" where
  "c_array n zero inits = take n inits @ replicate (n - length inits) zero"

record 'a elem_ptr =
  array :: "'a list"
  index :: int

definition subscript :: "'a elem_ptr \<Rightarrow> int \<Rightarrow> 'a option" where
  "subscript p k =
     (let i = index p + k
      in if 0 \<le> i \<and> i < int (length (array p)) then Some (array p ! nat i) else None)"

subsection \<open>Format strings (lines 51--73 and 104--121)\<close>

definition TYPE_FORMAT_STRING_SIZE :: nat where
  "TYPE_FORMAT_STRING_SIZE = 3"

definition PROC_FORMAT_STRING_SIZE :: nat where
  "PROC_FORMAT_STRING_SIZE = 1"

text \<open>
  \<^verbatim>\<open>struct { short Pad; unsigned char Format[SIZE]; }\<close>: the type and the procedure
  format string have the same fields and differ in the size of the array only.
\<close>

record natlink_MIDL_FORMAT_STRING =
  Pad :: "16 word"
  Format :: "uchar list"

type_synonym natlink_MIDL_TYPE_FORMAT_STRING = natlink_MIDL_FORMAT_STRING
type_synonym natlink_MIDL_PROC_FORMAT_STRING = natlink_MIDL_FORMAT_STRING

text \<open>
  The macro \<^verbatim>\<open>NdrFcShort\<close> comes from the platform header \<^verbatim>\<open>rpcndr.h\<close>:
  \<^verbatim>\<open>#define NdrFcShort(s) (unsigned char)(s & 0xff), (unsigned char)(s >> 8)\<close>,
  the two bytes of a 16-bit value, low byte first.
\<close>

definition NdrFcShort :: "ushort \<Rightarrow> uchar list" where
  "NdrFcShort s = [ucast (s AND 0xff), ucast (drop_bit 8 s)]"

definition natlink__MIDL_ProcFormatString :: natlink_MIDL_PROC_FORMAT_STRING where
  "natlink__MIDL_ProcFormatString =
     \<lparr>Pad = 0, Format = c_array PROC_FORMAT_STRING_SIZE 0 [0x0]\<rparr>"

definition natlink__MIDL_TypeFormatString :: natlink_MIDL_TYPE_FORMAT_STRING where
  "natlink__MIDL_TypeFormatString =
     \<lparr>Pad = 0, Format = c_array TYPE_FORMAT_STRING_SIZE 0 (NdrFcShort 0x0 @ [0x0])\<rparr>"

subsection \<open>Format string offsets, proxy and server information (lines 136--165, 197--219)\<close>

definition IDgnAppSupport_FormatStringOffsetTable :: "ushort list" where
  "IDgnAppSupport_FormatStringOffsetTable = [- 1, - 1, - 1, - 1, 0]"

text \<open>
  Of \<^verbatim>\<open>MIDL_STUB_DESC\<close>, \<^verbatim>\<open>MIDL_STUBLESS_PROXY_INFO\<close> and \<^verbatim>\<open>MIDL_SERVER_INFO\<close> the
  fields that the source initialises with something else than \<^verbatim>\<open>0\<close> are kept (and
  \<^verbatim>\<open>nCount\<close>); the allocator functions of the stub descriptor are left out.
\<close>

record MIDL_STUB_DESC =
  pFormatTypes :: "uchar list"
  fCheckBounds :: cint
  Version :: ulong
  MIDLVersion :: ulong
  mFlags :: ulong

definition Object_StubDesc :: MIDL_STUB_DESC where
  "Object_StubDesc =
     \<lparr>pFormatTypes = Format natlink__MIDL_TypeFormatString,
      fCheckBounds = 1,
      Version = 0x60001,
      MIDLVersion = 0x801026e,
      mFlags = 0x1\<rparr>"

record MIDL_STUBLESS_PROXY_INFO =
  pStubDesc :: MIDL_STUB_DESC
  ProcFormatString :: "uchar list"
  FormatStringOffset :: "ushort elem_ptr"
  nCount :: ulong


record MIDL_SERVER_INFO =
  pStubDesc :: MIDL_STUB_DESC
  ProcString :: "uchar list"
  FmtStringOffset :: "ushort elem_ptr"
  nCount :: ulong

definition IDgnAppSupport_ServerInfo :: MIDL_SERVER_INFO where
  "IDgnAppSupport_ServerInfo =
     \<lparr>pStubDesc = Object_StubDesc,
      ProcString = Format natlink__MIDL_ProcFormatString,
      FmtStringOffset = \<lparr>array = IDgnAppSupport_FormatStringOffsetTable, index = - 3\<rparr>,
      nCount = 0\<rparr>"

subsection \<open>The proxy's method table (lines 166--177)\<close>

text \<open>
  \<^verbatim>\<open>CINTERFACE_PROXY_VTABLE(n)\<close> is a macro of the platform header \<^verbatim>\<open>rpcproxy.h\<close>:
  \<^verbatim>\<open>struct { CInterfaceProxyHeader header; void *Vtbl[n]; }\<close>, where, with
  \<^verbatim>\<open>USE_STUBLESS_PROXY\<close> defined (line 34), the header is
  \<^verbatim>\<open>struct { const void *pStublessProxyInfo; const IID *piid; }\<close>.
  The functions a slot can name are the three the source names.
\<close>

datatype proxy_function =
  IUnknown_QueryInterface_Proxy | IUnknown_AddRef_Proxy | IUnknown_Release_Proxy

record CInterfaceProxyHeader =
  pStublessProxyInfo :: "MIDL_STUBLESS_PROXY_INFO option"
  piid :: GUID

record CInterfaceProxyVtbl =
  header :: CInterfaceProxyHeader
  Vtbl :: "proxy_function option list"

definition IDgnAppSupportProxyVtbl :: CInterfaceProxyVtbl where
  "IDgnAppSupportProxyVtbl =
     \<lparr>header = \<lparr>pStublessProxyInfo = None, piid = IID_IDgnAppSupport\<rparr>,
      Vtbl = c_array 7 None
        [Some IUnknown_QueryInterface_Proxy,
         Some IUnknown_AddRef_Proxy,
         Some IUnknown_Release_Proxy,
         None \<comment> \<open>\<^verbatim>\<open>IDispatch::GetTypeInfoCount\<close>\<close>,
         None \<comment> \<open>\<^verbatim>\<open>IDispatch::GetTypeInfo\<close>\<close>,
         None \<comment> \<open>\<^verbatim>\<open>IDispatch::GetIDsOfNames\<close>\<close>,
         None \<comment> \<open>\<^verbatim>\<open>IDispatch_Invoke_Proxy\<close>\<close>]\<rparr>"

subsection \<open>The stub's dispatch table (lines 180--195)\<close>

text \<open>
  \<^verbatim>\<open>STUB_FORWARDING_FUNCTION\<close> and \<^verbatim>\<open>CStdStubBuffer_DELEGATING_METHODS\<close> are macros of
  \<^verbatim>\<open>rpcproxy.h\<close> that name functions of the RPC runtime; they are kept as names.
  \<^verbatim>\<open>struct { const IID *piid; const MIDL_SERVER_INFO *pServerInfo;
            unsigned long DispatchTableCount; const PRPC_STUB_FUNCTION *pDispatchTable; }\<close>
  is the header of a stub table.
\<close>

datatype stub_function = STUB_FORWARDING_FUNCTION

datatype stub_buffer_methods = CStdStubBuffer_DELEGATING_METHODS

definition IDgnAppSupport_table :: "stub_function list" where
  "IDgnAppSupport_table =
     [STUB_FORWARDING_FUNCTION, STUB_FORWARDING_FUNCTION,
      STUB_FORWARDING_FUNCTION, STUB_FORWARDING_FUNCTION]"

record CInterfaceStubHeader =
  piid :: GUID
  pServerInfo :: MIDL_SERVER_INFO
  DispatchTableCount :: ulong
  pDispatchTable :: "stub_function elem_ptr"

record CInterfaceStubVtbl =
  header :: CInterfaceStubHeader
  Vtbl :: stub_buffer_methods

definition IDgnAppSupportStubVtbl :: CInterfaceStubVtbl where
  "IDgnAppSupportStubVtbl =
     \<lparr>header = \<lparr>piid = IID_IDgnAppSupport,
                pServerInfo = IDgnAppSupport_ServerInfo,
                DispatchTableCount = 7,
                pDispatchTable = \<lparr>array = IDgnAppSupport_table, index = - 3\<rparr>\<rparr>,
      Vtbl = CStdStubBuffer_DELEGATING_METHODS\<rparr>"

subsection \<open>The lists of the proxy file (lines 221--243)\<close>

definition natlink_ProxyVtblList :: "CInterfaceProxyVtbl option list" where
  "natlink_ProxyVtblList = [Some IDgnAppSupportProxyVtbl, None]"

definition natlink_StubVtblList :: "CInterfaceStubVtbl option list" where
  "natlink_StubVtblList = [Some IDgnAppSupportStubVtbl, None]"

definition natlink_InterfaceNamesList :: "string option list" where
  "natlink_InterfaceNamesList = [Some ''IDgnAppSupport'', None]"

definition natlink_BaseIIDList :: "GUID option list" where
  "natlink_BaseIIDList = [Some IID_IDispatch, None]"

subsection \<open>The identity lookup (lines 246--258)\<close>

datatype fault = NullPointer | OutOfBounds

text \<open>
  Modelled from the spec: the macro \<^verbatim>\<open>IID_GENERIC_CHECK_IID\<close> belongs to the platform
  header \<^verbatim>\<open>rpcproxy.h\<close>, which is not part of the repository. The specification's
  section 4.4 has the lookup compare the requested identity with the GUID of each known
  descriptor; the macro does it as
  \<^verbatim>\<open>memcmp(pIID, name##_ProxyVtblList[index]->header.piid, 16)\<close>.
  A subscript outside the list and the null entry that ends it are faults.
\<close>

definition IID_GENERIC_CHECK_IID ::
  "CInterfaceProxyVtbl option list \<Rightarrow> GUID \<Rightarrow> nat \<Rightarrow> fault + int" where
  "IID_GENERIC_CHECK_IID ProxyVtblList pIID n =
     (if n < length ProxyVtblList then
        (case ProxyVtblList ! n of
           None \<Rightarrow> Inl NullPointer
         | Some v \<Rightarrow>
             (case memcmp (bytes_of_GUID pIID)
                     (bytes_of_GUID (CInterfaceProxyHeader.piid (CInterfaceProxyVtbl.header v))) 16 of
                None \<Rightarrow> Inl OutOfBounds
              | Some c \<Rightarrow> Inr c))
      else Inl OutOfBounds)"

definition natlink_CHECK_IID :: "GUID \<Rightarrow> nat \<Rightarrow> fault + int" where
  "natlink_CHECK_IID pIID n = IID_GENERIC_CHECK_IID natlink_ProxyVtblList pIID n"

text \<open>
  \<^verbatim>\<open>int __stdcall _natlink_IID_Lookup(const IID *pIID, int *pIndex)\<close>. Both pointers
  are taken to point to objects: the first argument is the GUID \<^verbatim>\<open>pIID\<close> points to,
  the second is the value of \<^verbatim>\<open>*pIndex\<close> before the call. The result is the returned
  \<^verbatim>\<open>int\<close> together with the value of \<^verbatim>\<open>*pIndex\<close> after the call; nothing else is
  written.
\<close>

definition natlink_IID_Lookup :: "GUID \<Rightarrow> cint \<Rightarrow> fault + (cint \<times> cint)" where
  "natlink_IID_Lookup pIID pIndex =
     (case natlink_CHECK_IID pIID 0 of
        Inl f \<Rightarrow> Inl f
      | Inr c \<Rightarrow> if c = 0 then Inr (1, 0) else Inr (0, pIndex))"

subsection \<open>Repeated lookups\<close>

text \<open>
  \<open>n\<close> calls of the lookup in a row with the same identity, each call finding \<^verbatim>\<open>*pIndex\<close>
  as the call before left it: the returned values in order, and \<^verbatim>\<open>*pIndex\<close> at the end.
\<close>

fun IID_Lookup_repeated :: "nat \<Rightarrow> GUID \<Rightarrow> cint \<Rightarrow> fault + (cint list \<times> cint)" where
  "IID_Lookup_repeated 0 pIID pIndex = Inr ([], pIndex)"
| "IID_Lookup_repeated (Suc n) pIID pIndex =
     (case natlink_IID_Lookup pIID pIndex of
        Inl f \<Rightarrow> Inl f
      | Inr (r, i) \<Rightarrow>
          (case IID_Lookup_repeated n pIID i of
             Inl f \<Rightarrow> Inl f
           | Inr (rs, j) \<Rightarrow> Inr (r # rs, j)))"

subsection \<open>Slots of the method table\<close>

text \<open>
  The slots of the proxy's table are the positions of its array. A base-capability slot
  holds one of the \<^verbatim>\<open>IUnknown_..._Proxy\<close> functions; a dispatch-capability slot is an
  ordinal below the stub's \<^verbatim>\<open>DispatchTableCount\<close> for which the stub's dispatch table has
  an entry; a custom slot is a slot that is neither.
\<close>

definition proxy_slots :: "nat list" where
  "proxy_slots = [0 ..< length (CInterfaceProxyVtbl.Vtbl IDgnAppSupportProxyVtbl)]"

definition base_slots :: "nat list" where
  "base_slots =
     filter (\<lambda>k. CInterfaceProxyVtbl.Vtbl IDgnAppSupportProxyVtbl ! k \<noteq> None) proxy_slots"

definition dispatch_slots :: "nat list" where
  "dispatch_slots =
     filter (\<lambda>k. subscript (pDispatchTable (CInterfaceStubVtbl.header IDgnAppSupportStubVtbl)) (int k)
                  \<noteq> None)
       [0 ..< unat (DispatchTableCount (CInterfaceStubVtbl.header IDgnAppSupportStubVtbl))]"

definition custom_slots :: "nat list" where
  "custom_slots = filter (\<lambda>k. k \<notin> set base_slots \<and> k \<notin> set dispatch_slots) proxy_slots"

section \<open>Properties\<close>

subsection \<open>Bytes of a GUID\<close>

lemma bytes_of_ulong_inj:
  assumes "bytes_of_ulong a = bytes_of_ulong b"
  shows "a = b"
proof (rule bit_word_eqI)
  fix n assume n: "n < LENGTH(32)"
  from assms have e0: "(ucast a :: uchar) = ucast b"
    and e1: "(ucast (drop_bit 8 a) :: uchar) = ucast (drop_bit 8 b)"
    and e2: "(ucast (drop_bit 16 a) :: uchar) = ucast (drop_bit 16 b)"
    and e3: "(ucast (drop_bit 24 a) :: uchar) = ucast (drop_bit 24 b)"
    by (simp_all add: bytes_of_ulong_def)
  consider "n < 8" | "8 \<le> n" "n < 16" | "16 \<le> n" "n < 24" | "24 \<le> n" "n < 32"
    using n by fastforce
  then show "bit a n = bit b n"
  proof cases
    case 1
    from e0 have "bit (ucast a :: uchar) n = bit (ucast b :: uchar) n" by simp
    with 1 show ?thesis by (simp add: bit_ucast_iff)
  next
    case 2
    from e1 have "bit (ucast (drop_bit 8 a) :: uchar) (n - 8)
        = bit (ucast (drop_bit 8 b) :: uchar) (n - 8)" by simp
    moreover from 2 have "n - 8 < 8" by simp
    ultimately show ?thesis using 2 by (simp add: bit_ucast_iff bit_drop_bit_eq)
  next
    case 3
    from e2 have "bit (ucast (drop_bit 16 a) :: uchar) (n - 16)
        = bit (ucast (drop_bit 16 b) :: uchar) (n - 16)" by simp
    moreover from 3 have "n - 16 < 8" by simp
    ultimately show ?thesis using 3 by (simp add: bit_ucast_iff bit_drop_bit_eq)
  next
    case 4
    from e3 have "bit (ucast (drop_bit 24 a) :: uchar) (n - 24)
        = bit (ucast (drop_bit 24 b) :: uchar) (n - 24)" by simp
    moreover from 4 have "n - 24 < 8" by simp
    ultimately show ?thesis using 4 by (simp add: bit_ucast_iff bit_drop_bit_eq)
  qed
qed

lemma bytes_of_ushort_inj:
  assumes "bytes_of_ushort a = bytes_of_ushort b"
  shows "a = b"
proof (rule bit_word_eqI)
  fix n assume n: "n < LENGTH(16)"
  from assms have e0: "(ucast a :: uchar) = ucast b"
    and e1: "(ucast (drop_bit 8 a) :: uchar) = ucast (drop_bit 8 b)"
    by (simp_all add: bytes_of_ushort_def)
  show "bit a n = bit b n"
  proof (cases "n < 8")
    case True
    from e0 have "bit (ucast a :: uchar) n = bit (ucast b :: uchar) n" by simp
    with True show ?thesis by (simp add: bit_ucast_iff)
  next
    case False
    from e1 have "bit (ucast (drop_bit 8 a) :: uchar) (n - 8)
        = bit (ucast (drop_bit 8 b) :: uchar) (n - 8)" by simp
    moreover from False n have "n - 8 < 8" "8 \<le> n" by simp_all
    ultimately show ?thesis by (simp add: bit_ucast_iff bit_drop_bit_eq)
  qed
qed

lemma bytes_of_uchar8_inj: "bytes_of_uchar8 a = bytes_of_uchar8 b \<Longrightarrow> a = b"
  by (cases a; cases b) simp

lemma length_bytes_of_GUID: "length (bytes_of_GUID g) = 16"
  by (cases "Data4 g") (simp add: bytes_of_GUID_def bytes_of_ulong_def bytes_of_ushort_def)

lemma bytes_of_GUID_inj:
  assumes "bytes_of_GUID a = bytes_of_GUID b"
  shows "a = b"
proof -
  have "length (bytes_of_ulong (Data1 a)) = length (bytes_of_ulong (Data1 b))"
    by (simp add: bytes_of_ulong_def)
  moreover have "length (bytes_of_ushort (Data2 a)) = length (bytes_of_ushort (Data2 b))"
    and "length (bytes_of_ushort (Data3 a)) = length (bytes_of_ushort (Data3 b))"
    by (simp_all add: bytes_of_ushort_def)
  ultimately have "bytes_of_ulong (Data1 a) = bytes_of_ulong (Data1 b)"
    and "bytes_of_ushort (Data2 a) = bytes_of_ushort (Data2 b)"
    and "bytes_of_ushort (Data3 a) = bytes_of_ushort (Data3 b)"
    and "bytes_of_uchar8 (Data4 a) = bytes_of_uchar8 (Data4 b)"
    using assms by (simp_all add: bytes_of_GUID_def)
  then have "Data1 a = Data1 b" "Data2 a = Data2 b" "Data3 a = Data3 b" "Data4 a = Data4 b"
    by (auto dest: bytes_of_ulong_inj bytes_of_ushort_inj bytes_of_uchar8_inj)
  then show ?thesis by simp
qed

lemma uchar_difference_zero: "(int (unat x) - int (unat y) = 0) = (x = (y::uchar))"
  by (simp add: word_uint_eq_iff)

lemma memcmp_whole_objects:
  "length xs = n \<Longrightarrow> length ys = n \<Longrightarrow>
     \<exists>c. memcmp xs ys n = Some c \<and> (c = 0 \<longleftrightarrow> xs = ys)"
proof (induction xs ys n rule: memcmp.induct)
  case (1 xs ys)
  then show ?case by simp
next
  case (2 x xs y ys n)
  show ?case
  proof (cases "x = y")
    case True
    with 2 show ?thesis by simp
  next
    case False
    then have "int (unat x) - int (unat y) \<noteq> 0"
      using uchar_difference_zero [of x y] by blast
    with False show ?thesis by simp
  qed
qed simp_all

subsection \<open>The identities in text form\<close>

lemma IID_IDgnAppSupport_text:
  "text_of_GUID IID_IDgnAppSupport = ''cadd17a0-482a-484c-9451-7acba6f1272f''"
  by code_simp

lemma IID_IDispatch_text:
  "text_of_GUID IID_IDispatch = ''00020400-0000-0000-c000-000000000046''"
  by code_simp

lemma natlink_BaseIIDList_entries:
  "map (map_option text_of_GUID) natlink_BaseIIDList
     = [Some ''00020400-0000-0000-c000-000000000046'', None]"
  by (simp add: natlink_BaseIIDList_def IID_IDispatch_text)

subsection \<open>The lookup, case by case\<close>

lemma natlink_CHECK_IID_0:
  "\<exists>c. natlink_CHECK_IID I 0 = Inr c \<and> (c = 0 \<longleftrightarrow> I = IID_IDgnAppSupport)"
proof -
  obtain c where c: "memcmp (bytes_of_GUID I) (bytes_of_GUID IID_IDgnAppSupport) 16 = Some c"
    and z: "c = 0 \<longleftrightarrow> bytes_of_GUID I = bytes_of_GUID IID_IDgnAppSupport"
    using memcmp_whole_objects [OF length_bytes_of_GUID length_bytes_of_GUID] by blast
  have "natlink_CHECK_IID I 0 = Inr c"
    using c by (simp add: natlink_CHECK_IID_def IID_GENERIC_CHECK_IID_def
        natlink_ProxyVtblList_def IDgnAppSupportProxyVtbl_def)
  moreover have "c = 0 \<longleftrightarrow> I = IID_IDgnAppSupport"
    using z bytes_of_GUID_inj by blast
  ultimately show ?thesis by blast
qed

lemma IID_Lookup_cases:
  "natlink_IID_Lookup I idx = (if I = IID_IDgnAppSupport then Inr (1, 0) else Inr (0, idx))"
proof -
  obtain c where "natlink_CHECK_IID I 0 = Inr c" "c = 0 \<longleftrightarrow> I = IID_IDgnAppSupport"
    using natlink_CHECK_IID_0 by blast
  then show ?thesis by (simp add: natlink_IID_Lookup_def)
qed

lemma IID_Lookup_repeated_cases:
  "IID_Lookup_repeated (Suc n) I idx =
     (if I = IID_IDgnAppSupport then Inr (replicate (Suc n) 1, 0)
      else Inr (replicate (Suc n) 0, idx))"
proof (induction n arbitrary: I idx)
  case 0
  show ?case by (simp add: IID_Lookup_cases)
next
  case (Suc n)
  have "IID_Lookup_repeated (Suc (Suc n)) I idx =
      (case natlink_IID_Lookup I idx of
         Inl f \<Rightarrow> Inl f
       | Inr (r, i) \<Rightarrow>
           (case IID_Lookup_repeated (Suc n) I i of
              Inl f \<Rightarrow> Inl f
            | Inr (rs, j) \<Rightarrow> Inr (r # rs, j)))"
    by (rule IID_Lookup_repeated.simps)
  then show ?case
    by (simp add: IID_Lookup_cases Suc.IH del: IID_Lookup_repeated.simps)
qed

lemma IID_IUnknown_not_registered: "IID_IUnknown \<noteq> IID_IDgnAppSupport"
  by (simp add: IID_IUnknown_def IID_IDgnAppSupport_def)

lemma RpcTransferSyntax_not_registered: "SyntaxGUID RpcTransferSyntax \<noteq> IID_IDgnAppSupport"
  by (simp add: RpcTransferSyntax_def IID_IDgnAppSupport_def)

lemma IID_IDispatch_not_registered: "IID_IDispatch \<noteq> IID_IDgnAppSupport"
  by (simp add: IID_IDispatch_def IID_IDgnAppSupport_def)

subsection \<open>Identity lookup\<close>

text \<open>
  C1. For every requested identity \<open>I\<close> (and whatever the index cell holds before the
  call), the lookup returns 1 with the index 0 if and only if \<open>I\<close> is
  \<^verbatim>\<open>IID_IDgnAppSupport\<close>; for every other identity it returns 0 (not found). Index 0 is
  the position of the only descriptor of \<^verbatim>\<open>_natlink_ProxyVtblList\<close>, whose identity is
  \<^verbatim>\<open>IID_IDgnAppSupport\<close>; the second entry of the list is the null pointer that ends it.
\<close>

theorem IID_Lookup_succeeds_iff_registered:
  "(natlink_IID_Lookup I idx = Inr (1, 0) \<longleftrightarrow> I = IID_IDgnAppSupport) \<and>
   (I \<noteq> IID_IDgnAppSupport \<longrightarrow> (\<exists>i. natlink_IID_Lookup I idx = Inr (0, i))) \<and>
   map (map_option (\<lambda>v. CInterfaceProxyHeader.piid (CInterfaceProxyVtbl.header v)))
       natlink_ProxyVtblList = [Some IID_IDgnAppSupport, None]"
  by (simp add: IID_Lookup_cases natlink_ProxyVtblList_def IDgnAppSupportProxyVtbl_def)

theorem IID_Lookup_succeeds_iff_registered_witness:
  "IID_IDispatch \<noteq> IID_IDgnAppSupport \<and>
   (\<exists>i. natlink_IID_Lookup IID_IDispatch 5 = Inr (0, i)) \<and>
   natlink_IID_Lookup IID_IDgnAppSupport 5 = Inr (1, 0)"
  using IID_Lookup_succeeds_iff_registered [of IID_IDispatch 5]
    IID_Lookup_succeeds_iff_registered [of IID_IDgnAppSupport 5]
    IID_IDispatch_not_registered
  by simp

text \<open>
  C2, as stated, fails: a lookup that finds no match stores nothing in the index cell, so
  the cell does not hold the sentinel \<open>-1\<close> afterwards unless it held it before. Looking
  up \<^verbatim>\<open>IID_IDispatch\<close> with 5 in the cell returns 0 and leaves 5 there.
\<close>

theorem IID_Lookup_no_sentinel_counterexample:
  "IID_IDispatch \<noteq> IID_IDgnAppSupport \<and>
   natlink_IID_Lookup IID_IDispatch 5 = Inr (0, 5) \<and>
   natlink_IID_Lookup IID_IDispatch 5 \<noteq> Inr (0, - 1)"
proof -
  have "natlink_IID_Lookup IID_IDispatch 5 = Inr (0, 5)"
    by code_simp
  then show ?thesis
    by (simp add: IID_IDispatch_def IID_IDgnAppSupport_def)
qed

text \<open>
  C2, amended. When the lookup finds no match, it fails by returning 0 and stores no
  sentinel: the index cell keeps the value it had before the call. For every identity that
  is not the registered one the failure is reported this way, and the call does not fault.
\<close>

theorem IID_Lookup_no_match:
  "I \<noteq> IID_IDgnAppSupport \<Longrightarrow> natlink_IID_Lookup I idx = Inr (0, idx)"
  by (simp add: IID_Lookup_cases)

theorem IID_Lookup_no_match_witness:
  "IID_IUnknown \<noteq> IID_IDgnAppSupport \<and> natlink_IID_Lookup IID_IUnknown 7 = Inr (0, 7)"
  using IID_Lookup_no_match [OF IID_IUnknown_not_registered, of 7] IID_IUnknown_not_registered
  by simp

text \<open>
  C7. Repeated lookups with the same identity return the same value every time and leave
  the index cell as the first call left it: a second call on the state the first one
  produced gives the same result and the same state, and so do any \<open>n + 1\<close> calls in a
  row. The returned value does not depend on what the index cell held before. The index
  cell is the only object the function writes.
\<close>

theorem IID_Lookup_idempotent:
  "\<exists>r i. natlink_IID_Lookup I idx = Inr (r, i) \<and>
         natlink_IID_Lookup I i = Inr (r, i) \<and>
         IID_Lookup_repeated (Suc n) I idx = Inr (replicate (Suc n) r, i) \<and>
         (\<exists>i'. natlink_IID_Lookup I idx' = Inr (r, i'))"
  by (simp add: IID_Lookup_cases IID_Lookup_repeated_cases del: IID_Lookup_repeated.simps)

text \<open>
  C10. The lookup returns 1 or 0. It stores through the index pointer only when it returns
  1, and then it stores 0; when it returns 0 the index cell holds what it held before the
  call.
\<close>

theorem IID_Lookup_writes_index_on_success_only:
  "\<exists>r i. natlink_IID_Lookup I idx = Inr (r, i) \<and> (r = 1 \<or> r = 0) \<and>
         (r = 1 \<longrightarrow> i = 0) \<and> (r = 0 \<longrightarrow> i = idx)"
  by (simp add: IID_Lookup_cases)

theorem IID_Lookup_writes_index_on_success_only_witness:
  "natlink_IID_Lookup (SyntaxGUID RpcTransferSyntax) 9 = Inr (0, 9) \<and>
   natlink_IID_Lookup IID_IDgnAppSupport 9 = Inr (1, 0)"
proof -
  have miss: "map_sum id fst (natlink_IID_Lookup (SyntaxGUID RpcTransferSyntax) 9) = Inr 0"
    by code_simp
  have hit: "map_sum id fst (natlink_IID_Lookup IID_IDgnAppSupport 9) = Inr 1"
    by code_simp
  from miss IID_Lookup_writes_index_on_success_only [of "SyntaxGUID RpcTransferSyntax" 9]
  have "natlink_IID_Lookup (SyntaxGUID RpcTransferSyntax) 9 = Inr (0, 9)"
    by auto
  moreover from hit IID_Lookup_writes_index_on_success_only [of IID_IDgnAppSupport 9]
  have "natlink_IID_Lookup IID_IDgnAppSupport 9 = Inr (1, 0)"
    by auto
  ultimately show ?thesis by simp
qed

subsection \<open>Transfer syntax\<close>

text \<open>
  C8. The transfer syntax identifier of the file is the GUID
  \<^verbatim>\<open>8a885d04-1ceb-11c9-9fe8-08002b104860\<close> with version 2.0.
\<close>

theorem RpcTransferSyntax_value:
  "text_of_GUID (SyntaxGUID RpcTransferSyntax) = ''8a885d04-1ceb-11c9-9fe8-08002b104860'' \<and>
   MajorVersion (SyntaxVersion RpcTransferSyntax) = 2 \<and>
   MinorVersion (SyntaxVersion RpcTransferSyntax) = 0"
proof -
  have "text_of_GUID (SyntaxGUID RpcTransferSyntax) = ''8a885d04-1ceb-11c9-9fe8-08002b104860''"
    by code_simp
  then show ?thesis by (simp add: RpcTransferSyntax_def)
qed

subsection \<open>Method tables\<close>

lemma proxy_Vtbl_entries:
  "CInterfaceProxyVtbl.Vtbl IDgnAppSupportProxyVtbl =
     [Some IUnknown_QueryInterface_Proxy, Some IUnknown_AddRef_Proxy,
      Some IUnknown_Release_Proxy, None, None, None, None]"
  by (simp add: IDgnAppSupportProxyVtbl_def c_array_def)

lemma stub_dispatch_entry:
  "subscript (pDispatchTable (CInterfaceStubVtbl.header IDgnAppSupportStubVtbl)) k =
     (if 3 \<le> k \<and> k < 7 then Some STUB_FORWARDING_FUNCTION else None)"
proof -
  have "IDgnAppSupport_table ! n = STUB_FORWARDING_FUNCTION" for n
    by (cases "IDgnAppSupport_table ! n") simp
  then show ?thesis
    by (simp add: subscript_def IDgnAppSupportStubVtbl_def IDgnAppSupport_table_def Let_def)
qed


text \<open>
  C4. The method table of the interface has exactly 7 slots, in the proxy's table and by
  the stub's count alike: the 3 base-capability slots 0, 1, 2, the 4 dispatch-capability
  slots 3, 4, 5, 6, and no custom slot.
\<close>

theorem method_table_has_seven_slots:
  "length (CInterfaceProxyVtbl.Vtbl IDgnAppSupportProxyVtbl) = 7 \<and>
   DispatchTableCount (CInterfaceStubVtbl.header IDgnAppSupportStubVtbl) = 7 \<and>
   base_slots = [0, 1, 2] \<and> length base_slots = 3 \<and>
   dispatch_slots = [3, 4, 5, 6] \<and> length dispatch_slots = 4 \<and>
   custom_slots = [] \<and> length custom_slots = 0"
proof -
  have seven: "[0 ..< 7] = [0, 1, 2, 3, 4, 5, 6 :: nat]"
    by (simp add: upt_rec)
  have count: "DispatchTableCount (CInterfaceStubVtbl.header IDgnAppSupportStubVtbl) = 7"
    by (simp add: IDgnAppSupportStubVtbl_def)
  have slots: "proxy_slots = [0, 1, 2, 3, 4, 5, 6]"
    by (simp add: proxy_slots_def proxy_Vtbl_entries seven)
  have base: "base_slots = [0, 1, 2]"
    by (simp add: base_slots_def slots proxy_Vtbl_entries)
  have disp: "dispatch_slots = [3, 4, 5, 6]"
    by (simp add: dispatch_slots_def count seven stub_dispatch_entry)
  have cust: "custom_slots = []"
    by (simp add: custom_slots_def slots base disp)
  show ?thesis
    by (simp add: proxy_Vtbl_entries count base disp cust)
qed

subsection \<open>Format strings\<close>




end
